theory Spec2Isabelle
  imports Complex_Main
begin

section \<open>The shooter component (components/shooter.py)\<close>

text \<open>
  The component computes with Python floats. Finite floats are idealised as the
  real numbers they denote: rounding and overflow are not part of this model. The
  non-finite floats are kept where the component divides, that is for the supply
  voltage read in \<open>execute\<close> and for the quotient handed to the motor controller.
  Distances, targets and sensor velocities range over the finite values.
\<close>

subsection \<open>Python floats and true division\<close>

datatype pyfloat = Fin real | PosInf | NegInf | NaN

datatype error = ZeroDivisionError

text \<open>
  \<open>a / b\<close> on Python floats, for a finite dividend: a zero divisor raises, an infinite
  divisor gives zero and a NaN divisor gives NaN.
\<close>

fun truediv :: "real \<Rightarrow> pyfloat \<Rightarrow> error + pyfloat" where
  "truediv a (Fin b) = (if b = 0 then Inl ZeroDivisionError else Inr (Fin (a / b)))"
| "truediv a PosInf = Inr (Fin 0)"
| "truediv a NegInf = Inr (Fin 0)"
| "truediv a NaN = Inr NaN"

subsection \<open>Library functions the component calls\<close>

text \<open>
  \<open>wpilib.controller.SimpleMotorFeedforward\<close>: the constructor keeps the gains
  (\<open>kA\<close> defaults to 0) and \<open>calculate(velocity, acceleration = 0)\<close> returns
  \<open>kS * sgn(velocity) + kV * velocity + kA * acceleration\<close>, where \<open>sgn(0) = 0\<close>.
\<close>

record SimpleMotorFeedforward =
  kS :: real
  kV :: real
  kA :: real

definition calculate :: "SimpleMotorFeedforward \<Rightarrow> real \<Rightarrow> real \<Rightarrow> real" where
  "calculate ff velocity acceleration =
     kS ff * sgn velocity + kV ff * velocity + kA ff * acceleration"

text \<open>
  \<open>numpy.interp(x, xp, fp)\<close> for a scalar \<open>x\<close>. The search is numpy's
  \<open>binary_search_with_guess\<close>: \<open>len\<close> for a key above the last entry, \<open>-1\<close> for a
  key below the first, and otherwise the index that the linear scan
  \<open>for (i = 1; i < len && key >= arr[i]; ++i); return i - 1\<close> finds. numpy runs this
  scan on short arrays and a bisection from a guess on longer ones; on a sorted array,
  as \<open>ranges\<close> is, both find the same index. \<open>xp\<close> and \<open>fp\<close> are nonempty and of
  equal length (numpy raises ValueError otherwise; the component passes its class
  constants).
\<close>

definition linear_search :: "real \<Rightarrow> real list \<Rightarrow> int" where
  "linear_search key arr = int (length (takeWhile (\<lambda>a. key \<ge> a) (tl arr)))"

definition binary_search_with_guess :: "real \<Rightarrow> real list \<Rightarrow> int" where
  "binary_search_with_guess key arr =
     (if key > last arr then int (length arr)
      else if key < hd arr then - 1
      else linear_search key arr)"

definition interp :: "real \<Rightarrow> real list \<Rightarrow> real list \<Rightarrow> real" where
  "interp x xp fp =
     (let lenxp = int (length xp);
          lval = hd fp;
          rval = last fp;
          j = binary_search_with_guess x xp
      in if j = - 1 then lval
         else if j = lenxp then rval
         else if j = lenxp - 1 then fp ! nat j
         else if xp ! nat j = x then fp ! nat j
         else (let slope = (fp ! (nat j + 1) - fp ! nat j) / (xp ! (nat j + 1) - xp ! nat j)
               in slope * (x - xp ! nat j) + fp ! nat j))"

subsection \<open>Class constants\<close>

definition ranges :: "real list" where
  "ranges = [0, 7, 8, 9, 10, 11]"

definition centre_rpms :: "real list" where
  "centre_rpms = [0, 880, 1120, 1500, 2150, 2400]"

definition outer_rpms :: "real list" where
  "outer_rpms = [5000, 5000, 5000, 5000, 5000, 5000]"

definition COUNTS_PER_REV :: real where
  "COUNTS_PER_REV = 2048"

definition RPS_TO_CTRE_UNITS :: real where
  "RPS_TO_CTRE_UNITS = COUNTS_PER_REV / 10"

definition CTRE_UNITS_TO_RPS :: real where
  "CTRE_UNITS_TO_RPS = 1 / RPS_TO_CTRE_UNITS"

text \<open>The feedforward calculators that \<open>setup\<close> creates.\<close>

definition outer_ff_calculator :: SimpleMotorFeedforward where
  "outer_ff_calculator = \<lparr>kS = 187 / 1000, kV = 11 / 100, kA = 0\<rparr>"

definition centre_ff_calculator :: SimpleMotorFeedforward where
  "centre_ff_calculator = \<lparr>kS = 158 / 1000, kV = 11 / 100, kA = 0\<rparr>"

subsection \<open>State, hardware readings and hardware commands\<close>

text \<open>
  The fields of a \<open>Shooter\<close>: the attributes set by \<open>__init__\<close> and the two tunables,
  whose default is 0.
\<close>

record shooter =
  inject :: bool
  in_range :: bool
  velocity_tolerance :: real
  outer_target :: real
  centre_target :: real

definition shooter_init :: shooter where
  "shooter_init =
     \<lparr>inject = False, in_range = False, velocity_tolerance = 5 / 100,
      outer_target = 0, centre_target = 0\<rparr>"

text \<open>
  What the injected hardware objects return when the component reads them:
  \<open>RobotController.getInputVoltage()\<close>, \<open>getSelectedSensorVelocity()\<close> of each motor
  and \<open>loading_piston.get()\<close>.
\<close>

record hardware =
  input_voltage :: pyfloat
  centre_sensor_velocity :: real
  outer_sensor_velocity :: real
  piston_state :: bool

text \<open>
  What the component tells the hardware to do: \<open>motor.set(ControlMode.Velocity, demand,
  DemandType.ArbitraryFeedForward, feed_forward)\<close> and \<open>loading_piston.startPulse()\<close>.
\<close>

datatype motor = Centre | Outer

datatype command = MotorSet motor real pyfloat | StartPulse

subsection \<open>Methods\<close>

text \<open>
  \<open>execute\<close>: both quotients are computed before the first command is sent, so a
  raised ZeroDivisionError leaves the state as it was and sends nothing.
\<close>

definition execute :: "hardware \<Rightarrow> shooter \<Rightarrow> error + (shooter \<times> command list)" where
  "execute hw s =
     (let voltage = input_voltage hw
      in case truediv (calculate centre_ff_calculator (centre_target s) 0) voltage of
           Inl e \<Rightarrow> Inl e
         | Inr centre_feed_forward \<Rightarrow>
             (case truediv (calculate outer_ff_calculator (outer_target s) 0) voltage of
                Inl e \<Rightarrow> Inl e
              | Inr outer_feed_forward \<Rightarrow>
                  (let cmds = [MotorSet Centre (centre_target s * RPS_TO_CTRE_UNITS)
                                 centre_feed_forward,
                               MotorSet Outer (outer_target s * RPS_TO_CTRE_UNITS)
                                 outer_feed_forward]
                   in if inject s then Inr (s\<lparr>inject := False\<rparr>, cmds @ [StartPulse])
                      else Inr (s, cmds))))"

definition set_range :: "real \<Rightarrow> shooter \<Rightarrow> shooter" where
  "set_range distance s =
     (let (distance', in_range') =
            (if hd ranges \<le> distance \<and> distance \<le> last ranges then (distance, True)
             else (min (last ranges) (max distance (hd ranges)), False))
      in s\<lparr>in_range := in_range',
            centre_target := interp distance' ranges centre_rpms,
            outer_target := interp distance' ranges outer_rpms\<rparr>)"

definition get_centre_velocity :: "hardware \<Rightarrow> real" where
  "get_centre_velocity hw = centre_sensor_velocity hw * CTRE_UNITS_TO_RPS"

definition get_outer_velocity :: "hardware \<Rightarrow> real" where
  "get_outer_velocity hw = outer_sensor_velocity hw * CTRE_UNITS_TO_RPS"

definition is_at_speed :: "hardware \<Rightarrow> shooter \<Rightarrow> bool" where
  "is_at_speed hw s =
     (\<bar>centre_target s - get_centre_velocity hw\<bar> \<le> centre_target s * velocity_tolerance s
      \<and> \<bar>outer_target s - get_outer_velocity hw\<bar> \<le> outer_target s * velocity_tolerance s)"

definition is_firing :: "hardware \<Rightarrow> bool" where
  "is_firing hw = piston_state hw"

definition is_in_range :: "shooter \<Rightarrow> bool" where
  "is_in_range s = in_range s"

definition is_ready :: "hardware \<Rightarrow> shooter \<Rightarrow> bool" where
  "is_ready hw s = (is_in_range s \<and> is_at_speed hw s \<and> \<not> is_firing hw)"

definition fire :: "shooter \<Rightarrow> shooter" where
  "fire s = s\<lparr>inject := True\<rparr>"

subsection \<open>Reading the outcome of a control cycle\<close>

fun commands :: "error + (shooter \<times> command list) \<Rightarrow> command list" where
  "commands (Inl e) = []"
| "commands (Inr (s, cmds)) = cmds"

fun setpoint_of :: "motor \<Rightarrow> command list \<Rightarrow> real option" where
  "setpoint_of m [] = None"
| "setpoint_of m (MotorSet m' demand ff # cmds) =
     (if m' = m then Some demand else setpoint_of m cmds)"
| "setpoint_of m (StartPulse # cmds) = setpoint_of m cmds"

fun feedforward_of :: "motor \<Rightarrow> command list \<Rightarrow> pyfloat option" where
  "feedforward_of m [] = None"
| "feedforward_of m (MotorSet m' demand ff # cmds) =
     (if m' = m then Some ff else feedforward_of m cmds)"
| "feedforward_of m (StartPulse # cmds) = feedforward_of m cmds"

definition pulses :: "command list \<Rightarrow> nat" where
  "pulses cmds = count_list cmds StartPulse"

subsection \<open>Linear interpolation, as the specification words it\<close>

text \<open>
  The value at \<open>x\<close> of the straight line through the samples \<open>(x0, y0)\<close> and
  \<open>(x1, y1)\<close>. This definition is not taken from the component: it is what the
  results of \<open>set_range\<close> are compared with.
\<close>

definition linear_interpolation :: "real \<Rightarrow> real \<Rightarrow> real \<Rightarrow> real \<Rightarrow> real \<Rightarrow> real" where
  "linear_interpolation x0 y0 x1 y1 x = y0 + (x - x0) * (y1 - y0) / (x1 - x0)"

section \<open>Properties\<close>

subsection \<open>What \<open>set_range\<close> leaves alone\<close>

text \<open>
  C9. For every distance, \<open>set_range\<close> writes only \<open>centre_target\<close>, \<open>outer_target\<close>
  and \<open>in_range\<close>: the result is the old state with these three fields replaced, and
  the pending fire request \<open>inject\<close> and \<open>velocity_tolerance\<close> are as before.
\<close>

theorem set_range_frame:
  "set_range distance s =
     s\<lparr>in_range := in_range (set_range distance s),
       centre_target := centre_target (set_range distance s),
       outer_target := outer_target (set_range distance s)\<rparr>
   \<and> inject (set_range distance s) = inject s
   \<and> velocity_tolerance (set_range distance s) = velocity_tolerance s"
  by (simp add: set_range_def Let_def split: prod.splits)

subsection \<open>The distance-to-velocity mapping\<close>

lemma interp_ranges:
  assumes "0 \<le> x" "x \<le> 11"
  shows "interp x ranges [f0, f1, f2, f3, f4, f5] =
     (if x < 7 then linear_interpolation 0 f0 7 f1 x
      else if x < 8 then linear_interpolation 7 f1 8 f2 x
      else if x < 9 then linear_interpolation 8 f2 9 f3 x
      else if x < 10 then linear_interpolation 9 f3 10 f4 x
      else linear_interpolation 10 f4 11 f5 x)"
  using assms
  by (auto simp add: interp_def binary_search_with_guess_def linear_search_def ranges_def
        linear_interpolation_def Let_def field_simps)

lemma interp_below: "x < 0 \<Longrightarrow> interp x ranges [f0, f1, f2, f3, f4, f5] = f0"
  by (simp add: interp_def binary_search_with_guess_def ranges_def)

lemma interp_above: "11 < x \<Longrightarrow> interp x ranges [f0, f1, f2, f3, f4, f5] = f5"
  by (simp add: interp_def binary_search_with_guess_def ranges_def)

lemma ranges_ends: "hd ranges = 0" "last ranges = 11" "length ranges = 6"
  by (simp_all add: ranges_def)

lemma segment_cases:
  assumes "Suc i < 6"
  obtains "i = 0" | "i = 1" | "i = 2" | "i = 3" | "i = 4"
  using assms by arith

lemma interp_bracket:
  assumes "Suc i < length ranges" "ranges ! i \<le> x" "x \<le> ranges ! Suc i"
  shows "interp x ranges [f0, f1, f2, f3, f4, f5] =
     linear_interpolation (ranges ! i) ([f0, f1, f2, f3, f4, f5] ! i)
       (ranges ! Suc i) ([f0, f1, f2, f3, f4, f5] ! Suc i) x"
proof -
  from assms(1) have "Suc i < 6" by (simp add: ranges_ends)
  then show ?thesis
  proof (cases rule: segment_cases)
    case 1
    with assms(2,3) have "0 \<le> x" "x \<le> 7" by (simp_all add: ranges_def)
    then show ?thesis
      unfolding 1 by (auto simp add: interp_ranges) (simp_all add: ranges_def linear_interpolation_def field_simps)
  next
    case 2
    with assms(2,3) have "7 \<le> x" "x \<le> 8" by (simp_all add: ranges_def)
    then show ?thesis
      unfolding 2 by (auto simp add: interp_ranges) (simp_all add: ranges_def linear_interpolation_def field_simps)
  next
    case 3
    with assms(2,3) have "8 \<le> x" "x \<le> 9" by (simp_all add: ranges_def)
    then show ?thesis
      unfolding 3 by (auto simp add: interp_ranges) (simp_all add: ranges_def linear_interpolation_def field_simps)
  next
    case 4
    with assms(2,3) have "9 \<le> x" "x \<le> 10" by (simp_all add: ranges_def)
    then show ?thesis
      unfolding 4 by (auto simp add: interp_ranges) (simp_all add: ranges_def linear_interpolation_def field_simps)
  next
    case 5
    with assms(2,3) have "10 \<le> x" "x \<le> 11" by (simp_all add: ranges_def)
    then show ?thesis
      unfolding 5 by (auto simp add: interp_ranges) (simp_all add: ranges_def linear_interpolation_def field_simps)
  qed
qed

lemma bracket_exists:
  assumes "hd ranges \<le> x" "x \<le> last ranges"
  shows "\<exists>i. Suc i < length ranges \<and> ranges ! i \<le> x \<and> x \<le> ranges ! Suc i"
proof -
  from assms have b: "0 \<le> x" "x \<le> 11" by (simp_all add: ranges_ends)
  consider "x \<le> 7" | "7 \<le> x" "x \<le> 8" | "8 \<le> x" "x \<le> 9" | "9 \<le> x" "x \<le> 10" | "10 \<le> x"
    by linarith
  then show ?thesis
  proof cases
    case 1
    with b have "Suc 0 < length ranges \<and> ranges ! 0 \<le> x \<and> x \<le> ranges ! Suc 0"
      by (simp add: ranges_def)
    then show ?thesis by blast
  next
    case 2
    then have "Suc 1 < length ranges \<and> ranges ! 1 \<le> x \<and> x \<le> ranges ! Suc 1"
      by (simp add: ranges_def)
    then show ?thesis by blast
  next
    case 3
    then have "Suc 2 < length ranges \<and> ranges ! 2 \<le> x \<and> x \<le> ranges ! Suc 2"
      by (simp add: ranges_def)
    then show ?thesis by blast
  next
    case 4
    then have "Suc 3 < length ranges \<and> ranges ! 3 \<le> x \<and> x \<le> ranges ! Suc 3"
      by (simp add: ranges_def)
    then show ?thesis by blast
  next
    case 5
    with b have "Suc 4 < length ranges \<and> ranges ! 4 \<le> x \<and> x \<le> ranges ! Suc 4"
      by (simp add: ranges_def)
    then show ?thesis by blast
  qed
qed

lemma set_range_inside:
  assumes "hd ranges \<le> x" "x \<le> last ranges"
  shows "set_range x s =
     s\<lparr>in_range := True, centre_target := interp x ranges centre_rpms,
       outer_target := interp x ranges outer_rpms\<rparr>"
  using assms by (simp add: set_range_def)

text \<open>
  C3. For every distance between the first and the last table distance, both
  included, \<open>set_range\<close> sets \<open>in_range\<close> and sets both targets to the linear
  interpolation of the table samples that bracket the distance: some pair of adjacent
  samples brackets it, and every pair that does gives the targets. The witness is the
  distance 7.5, between the samples (7, 880) and (8, 1120), with centre target 1000.
\<close>

theorem set_range_within_bounds:
  assumes "hd ranges \<le> distance" and "distance \<le> last ranges"
  shows "in_range (set_range distance s)
     \<and> (\<exists>i. Suc i < length ranges \<and> ranges ! i \<le> distance \<and> distance \<le> ranges ! Suc i)
     \<and> (\<forall>i. Suc i < length ranges \<and> ranges ! i \<le> distance \<and> distance \<le> ranges ! Suc i \<longrightarrow>
           centre_target (set_range distance s) =
             linear_interpolation (ranges ! i) (centre_rpms ! i)
               (ranges ! Suc i) (centre_rpms ! Suc i) distance
         \<and> outer_target (set_range distance s) =
             linear_interpolation (ranges ! i) (outer_rpms ! i)
               (ranges ! Suc i) (outer_rpms ! Suc i) distance)"
proof (intro conjI allI impI)
  show "in_range (set_range distance s)"
    using assms by (simp add: set_range_inside)
  show "\<exists>i. Suc i < length ranges \<and> ranges ! i \<le> distance \<and> distance \<le> ranges ! Suc i"
    using assms by (rule bracket_exists)
next
  fix i
  assume seg: "Suc i < length ranges \<and> ranges ! i \<le> distance \<and> distance \<le> ranges ! Suc i"
  show "centre_target (set_range distance s) =
      linear_interpolation (ranges ! i) (centre_rpms ! i)
        (ranges ! Suc i) (centre_rpms ! Suc i) distance"
    using assms seg interp_bracket [of i distance 0 880 1120 1500 2150 2400]
    by (simp add: set_range_inside centre_rpms_def)
  show "outer_target (set_range distance s) =
      linear_interpolation (ranges ! i) (outer_rpms ! i)
        (ranges ! Suc i) (outer_rpms ! Suc i) distance"
    using assms seg interp_bracket [of i distance 5000 5000 5000 5000 5000 5000]
    by (simp add: set_range_inside outer_rpms_def)
qed

theorem set_range_within_bounds_witness:
  "hd ranges \<le> 15 / 2 \<and> 15 / 2 \<le> last ranges
   \<and> in_range (set_range (15 / 2) shooter_init)
   \<and> centre_target (set_range (15 / 2) shooter_init) = 1000
   \<and> outer_target (set_range (15 / 2) shooter_init) = 5000"
proof -
  have lo: "hd ranges \<le> 15 / 2" and hi: "15 / 2 \<le> last ranges"
    by (simp_all add: ranges_def)
  have seg: "Suc 1 < length ranges \<and> ranges ! 1 \<le> 15 / 2 \<and> 15 / 2 \<le> ranges ! Suc 1"
    by (simp add: ranges_def)
  from set_range_within_bounds [OF lo hi, of shooter_init] seg
  have "in_range (set_range (15 / 2) shooter_init)"
    and "centre_target (set_range (15 / 2) shooter_init) =
      linear_interpolation (ranges ! 1) (centre_rpms ! 1) (ranges ! Suc 1) (centre_rpms ! Suc 1) (15 / 2)"
    and "outer_target (set_range (15 / 2) shooter_init) =
      linear_interpolation (ranges ! 1) (outer_rpms ! 1) (ranges ! Suc 1) (outer_rpms ! Suc 1) (15 / 2)"
    by blast+
  then show ?thesis
    using lo hi
    by (simp add: ranges_def centre_rpms_def outer_rpms_def linear_interpolation_def)
qed

lemma interp_first: "interp 0 ranges [f0, f1, f2, f3, f4, f5] = f0"
  by (simp add: interp_ranges linear_interpolation_def)

lemma interp_last: "interp 11 ranges [f0, f1, f2, f3, f4, f5] = f5"
  by (simp add: interp_ranges linear_interpolation_def)

lemma set_range_below:
  assumes "x < hd ranges"
  shows "set_range x s =
     s\<lparr>in_range := False, centre_target := hd centre_rpms, outer_target := hd outer_rpms\<rparr>"
proof -
  from assms have "x < 0" by (simp add: ranges_ends)
  then have "set_range x s =
     s\<lparr>in_range := False, centre_target := interp 0 ranges centre_rpms,
       outer_target := interp 0 ranges outer_rpms\<rparr>"
    by (simp add: set_range_def ranges_ends)
  then show ?thesis
    by (simp add: centre_rpms_def outer_rpms_def interp_first)
qed

lemma set_range_above:
  assumes "last ranges < x"
  shows "set_range x s =
     s\<lparr>in_range := False, centre_target := last centre_rpms, outer_target := last outer_rpms\<rparr>"
proof -
  from assms have "11 < x" by (simp add: ranges_ends)
  then have "set_range x s =
     s\<lparr>in_range := False, centre_target := interp 11 ranges centre_rpms,
       outer_target := interp 11 ranges outer_rpms\<rparr>"
    by (simp add: set_range_def ranges_ends)
  then show ?thesis
    by (simp add: centre_rpms_def outer_rpms_def interp_last)
qed

text \<open>
  C4. For every distance strictly below the first table distance, \<open>set_range\<close>
  clears \<open>in_range\<close> and sets the targets to the first sample's velocities; strictly
  above the last table distance it clears \<open>in_range\<close> and sets them to the last
  sample's velocities. Nothing is extrapolated.
\<close>

theorem set_range_out_of_bounds:
  "(distance < hd ranges \<longrightarrow>
      \<not> in_range (set_range distance s)
      \<and> centre_target (set_range distance s) = hd centre_rpms
      \<and> outer_target (set_range distance s) = hd outer_rpms)
   \<and> (last ranges < distance \<longrightarrow>
      \<not> in_range (set_range distance s)
      \<and> centre_target (set_range distance s) = last centre_rpms
      \<and> outer_target (set_range distance s) = last outer_rpms)"
  by (simp add: set_range_below set_range_above)

theorem set_range_out_of_bounds_witness:
  "- 1 < hd ranges \<and> last ranges < 12
   \<and> \<not> in_range (set_range (- 1) shooter_init)
   \<and> centre_target (set_range (- 1) shooter_init) = 0
   \<and> outer_target (set_range (- 1) shooter_init) = 5000
   \<and> \<not> in_range (set_range 12 shooter_init)
   \<and> centre_target (set_range 12 shooter_init) = 2400
   \<and> outer_target (set_range 12 shooter_init) = 5000"
proof -
  have lo: "- 1 < hd ranges" and hi: "last ranges < 12"
    by (simp_all add: ranges_def)
  from set_range_out_of_bounds [of "- 1" shooter_init] lo
  have a: "\<not> in_range (set_range (- 1) shooter_init)
      \<and> centre_target (set_range (- 1) shooter_init) = hd centre_rpms
      \<and> outer_target (set_range (- 1) shooter_init) = hd outer_rpms"
    by blast
  from set_range_out_of_bounds [of 12 shooter_init] hi
  have b: "\<not> in_range (set_range 12 shooter_init)
      \<and> centre_target (set_range 12 shooter_init) = last centre_rpms
      \<and> outer_target (set_range 12 shooter_init) = last outer_rpms"
    by blast
  from a b lo hi show ?thesis
    by (simp add: centre_rpms_def outer_rpms_def)
qed

subsection \<open>The control cycle\<close>

lemma execute_zero_voltage:
  "input_voltage hw = Fin 0 \<Longrightarrow> execute hw s = Inl ZeroDivisionError"
  by (simp add: execute_def Let_def)

lemma execute_returns:
  assumes "input_voltage hw \<noteq> Fin 0"
  shows "\<exists>cff off.
       truediv (calculate centre_ff_calculator (centre_target s) 0) (input_voltage hw) = Inr cff
     \<and> truediv (calculate outer_ff_calculator (outer_target s) 0) (input_voltage hw) = Inr off
     \<and> execute hw s =
         Inr (s\<lparr>inject := False\<rparr>,
              [MotorSet Centre (centre_target s * RPS_TO_CTRE_UNITS) cff,
               MotorSet Outer (outer_target s * RPS_TO_CTRE_UNITS) off]
              @ (if inject s then [StartPulse] else []))"
  using assms by (cases "input_voltage hw") (auto simp add: execute_def)

lemma calculate_zero: "calculate ff 0 0 = 0"
  by (simp add: calculate_def)

text \<open>
  C1, as the component behaves. For every pair of targets, \<open>execute\<close> divides each
  feedforward voltage by the measured supply voltage without a guard. With a supply
  voltage of zero the division raises ZeroDivisionError: the cycle stops before any
  command and no feedforward value results. With an infinite supply voltage both
  feedforward values are zero. With a NaN supply voltage both are NaN.
\<close>

theorem execute_feedforward_by_voltage:
  "execute (hw\<lparr>input_voltage := Fin 0\<rparr>) s = Inl ZeroDivisionError
   \<and> feedforward_of Centre (commands (execute (hw\<lparr>input_voltage := PosInf\<rparr>) s)) = Some (Fin 0)
   \<and> feedforward_of Outer (commands (execute (hw\<lparr>input_voltage := PosInf\<rparr>) s)) = Some (Fin 0)
   \<and> feedforward_of Centre (commands (execute (hw\<lparr>input_voltage := NegInf\<rparr>) s)) = Some (Fin 0)
   \<and> feedforward_of Outer (commands (execute (hw\<lparr>input_voltage := NegInf\<rparr>) s)) = Some (Fin 0)
   \<and> feedforward_of Centre (commands (execute (hw\<lparr>input_voltage := NaN\<rparr>) s)) = Some NaN
   \<and> feedforward_of Outer (commands (execute (hw\<lparr>input_voltage := NaN\<rparr>) s)) = Some NaN"
  by (simp add: execute_def Let_def)

text \<open>
  At startup (both targets 0) with a supply voltage of zero, the cycle raises and the
  centre motor receives no feedforward value, so it does not receive zero.
\<close>

theorem execute_zero_voltage_counterexample:
  "execute \<lparr>input_voltage = Fin 0, centre_sensor_velocity = 0, outer_sensor_velocity = 0,
            piston_state = False\<rparr> shooter_init = Inl ZeroDivisionError
   \<and> feedforward_of Centre (commands (execute
        \<lparr>input_voltage = Fin 0, centre_sensor_velocity = 0, outer_sensor_velocity = 0,
         piston_state = False\<rparr> shooter_init)) \<noteq> Some (Fin 0)"
  by (simp add: execute_def Let_def)

text \<open>
  C2, as the component behaves. For every pair of targets, in a control cycle that
  reads a nonzero supply voltage, the setpoint sent to each motor controller is the
  target multiplied by \<open>RPS_TO_CTRE_UNITS = 2048 / 10\<close>, the encoder counts per
  100 ms of one revolution per second.
\<close>

theorem execute_setpoint_scaled:
  assumes "input_voltage hw \<noteq> Fin 0"
  shows "setpoint_of Centre (commands (execute hw s)) = Some (centre_target s * (2048 / 10))
     \<and> setpoint_of Outer (commands (execute hw s)) = Some (outer_target s * (2048 / 10))"
proof -
  from execute_returns [OF assms, of s] obtain cff off where
    "execute hw s =
       Inr (s\<lparr>inject := False\<rparr>,
            [MotorSet Centre (centre_target s * RPS_TO_CTRE_UNITS) cff,
             MotorSet Outer (outer_target s * RPS_TO_CTRE_UNITS) off]
            @ (if inject s then [StartPulse] else []))"
    by blast
  then show ?thesis
    by (simp add: RPS_TO_CTRE_UNITS_def COUNTS_PER_REV_def)
qed

theorem execute_setpoint_scaled_witness:
  "input_voltage \<lparr>input_voltage = Fin 12, centre_sensor_velocity = 0,
                   outer_sensor_velocity = 0, piston_state = False\<rparr> \<noteq> Fin 0
   \<and> setpoint_of Centre (commands (execute
        \<lparr>input_voltage = Fin 12, centre_sensor_velocity = 0, outer_sensor_velocity = 0,
         piston_state = False\<rparr>
        (shooter_init\<lparr>outer_target := 5000, centre_target := 1000\<rparr>))) = Some 204800
   \<and> setpoint_of Outer (commands (execute
        \<lparr>input_voltage = Fin 12, centre_sensor_velocity = 0, outer_sensor_velocity = 0,
         piston_state = False\<rparr>
        (shooter_init\<lparr>outer_target := 5000, centre_target := 1000\<rparr>))) = Some 1024000"
  using execute_setpoint_scaled
    [of "\<lparr>input_voltage = Fin 12, centre_sensor_velocity = 0, outer_sensor_velocity = 0,
          piston_state = False\<rparr>"
        "shooter_init\<lparr>outer_target := 5000, centre_target := 1000\<rparr>"]
  by (simp add: shooter_init_def)

text \<open>
  With targets 1000 and 5000 at 12 V the setpoints sent are 204800 and 1024000, not the
  targets themselves.
\<close>

theorem execute_setpoint_counterexample:
  "setpoint_of Centre (commands (execute
      \<lparr>input_voltage = Fin 12, centre_sensor_velocity = 0, outer_sensor_velocity = 0,
       piston_state = False\<rparr>
      (shooter_init\<lparr>outer_target := 5000, centre_target := 1000\<rparr>)))
     \<noteq> Some (centre_target (shooter_init\<lparr>outer_target := 5000, centre_target := 1000\<rparr>))
   \<and> setpoint_of Outer (commands (execute
      \<lparr>input_voltage = Fin 12, centre_sensor_velocity = 0, outer_sensor_velocity = 0,
       piston_state = False\<rparr>
      (shooter_init\<lparr>outer_target := 5000, centre_target := 1000\<rparr>)))
     \<noteq> Some (outer_target (shooter_init\<lparr>outer_target := 5000, centre_target := 1000\<rparr>))"
  by (simp add: execute_def shooter_init_def RPS_TO_CTRE_UNITS_def COUNTS_PER_REV_def Let_def)

text \<open>
  C7, as the component behaves. From any state, \<open>fire\<close> followed by one control
  cycle that reads a nonzero supply voltage sends exactly one pulse-start command and
  leaves no request pending; the next control cycle, whatever it reads, sends no
  pulse-start command.
\<close>

theorem fire_then_execute:
  assumes "input_voltage hw \<noteq> Fin 0"
  shows "\<exists>s' cmds. execute hw (fire s) = Inr (s', cmds)
     \<and> pulses cmds = 1
     \<and> \<not> inject s'
     \<and> pulses (commands (execute hw' s')) = 0"
proof -
  from execute_returns [OF assms, of "fire s"] obtain cff off where
    first: "execute hw (fire s) =
       Inr (fire s\<lparr>inject := False\<rparr>,
            [MotorSet Centre (centre_target (fire s) * RPS_TO_CTRE_UNITS) cff,
             MotorSet Outer (outer_target (fire s) * RPS_TO_CTRE_UNITS) off]
            @ [StartPulse])"
    by (auto simp add: fire_def)
  have idle: "\<not> inject (fire s\<lparr>inject := False\<rparr>)"
    by simp
  have second: "pulses (commands (execute hw' (fire s\<lparr>inject := False\<rparr>))) = 0"
  proof (cases "input_voltage hw' = Fin 0")
    case True
    then show ?thesis
      by (simp add: execute_zero_voltage pulses_def)
  next
    case False
    from execute_returns [OF False, of "fire s\<lparr>inject := False\<rparr>"] show ?thesis
      by (auto simp add: pulses_def)
  qed
  from first idle second show ?thesis
    by (simp add: pulses_def)
qed

theorem fire_then_execute_witness:
  "input_voltage \<lparr>input_voltage = Fin 12, centre_sensor_velocity = 0,
                   outer_sensor_velocity = 0, piston_state = False\<rparr> \<noteq> Fin 0
   \<and> execute \<lparr>input_voltage = Fin 12, centre_sensor_velocity = 0,
               outer_sensor_velocity = 0, piston_state = False\<rparr> (fire shooter_init)
       = Inr (shooter_init,
              [MotorSet Centre 0 (Fin 0), MotorSet Outer 0 (Fin 0), StartPulse])
   \<and> pulses [MotorSet Centre 0 (Fin 0), MotorSet Outer 0 (Fin 0), StartPulse] = 1
   \<and> \<not> inject shooter_init
   \<and> pulses (commands (execute \<lparr>input_voltage = Fin 12, centre_sensor_velocity = 0,
               outer_sensor_velocity = 0, piston_state = False\<rparr> shooter_init)) = 0"
proof -
  let ?hw = "\<lparr>input_voltage = Fin 12, centre_sensor_velocity = 0,
              outer_sensor_velocity = 0, piston_state = False\<rparr>"
  have v: "input_voltage ?hw \<noteq> Fin 0"
    by simp
  have run: "execute ?hw (fire shooter_init) =
      Inr (shooter_init, [MotorSet Centre 0 (Fin 0), MotorSet Outer 0 (Fin 0), StartPulse])"
    by (simp add: execute_def fire_def shooter_init_def calculate_def Let_def)
  from fire_then_execute [OF v, of shooter_init ?hw] run
  have "pulses [MotorSet Centre 0 (Fin 0), MotorSet Outer 0 (Fin 0), StartPulse] = 1
     \<and> \<not> inject shooter_init
     \<and> pulses (commands (execute ?hw shooter_init)) = 0"
    by auto
  with v run show ?thesis
    by simp
qed

text \<open>
  With a supply voltage of zero the cycle after \<open>fire\<close> raises before it reaches
  the piston: no pulse-start command is sent.
\<close>

theorem fire_then_execute_counterexample:
  "execute \<lparr>input_voltage = Fin 0, centre_sensor_velocity = 0, outer_sensor_velocity = 0,
            piston_state = False\<rparr> (fire shooter_init) = Inl ZeroDivisionError
   \<and> pulses (commands (execute
        \<lparr>input_voltage = Fin 0, centre_sensor_velocity = 0, outer_sensor_velocity = 0,
         piston_state = False\<rparr> (fire shooter_init))) = 0"
  by (simp add: execute_def pulses_def Let_def)

text \<open>
  C8. With a finite nonzero supply voltage, a target of exactly zero gives that motor
  a feedforward value of exactly zero: the velocity term is zero and the static term
  is multiplied by \<open>sgn 0 = 0\<close>.
\<close>

theorem execute_zero_target:
  assumes "input_voltage hw = Fin v" and "v \<noteq> 0"
  shows "(centre_target s = 0 \<longrightarrow>
            feedforward_of Centre (commands (execute hw s)) = Some (Fin 0))
       \<and> (outer_target s = 0 \<longrightarrow>
            feedforward_of Outer (commands (execute hw s)) = Some (Fin 0))"
  using assms by (simp add: execute_def calculate_zero Let_def)

theorem execute_zero_target_witness:
  "input_voltage \<lparr>input_voltage = Fin 12, centre_sensor_velocity = 0,
                   outer_sensor_velocity = 0, piston_state = False\<rparr> = Fin 12
   \<and> (12 :: real) \<noteq> 0
   \<and> centre_target shooter_init = 0
   \<and> outer_target shooter_init = 0
   \<and> feedforward_of Centre (commands (execute
        \<lparr>input_voltage = Fin 12, centre_sensor_velocity = 0, outer_sensor_velocity = 0,
         piston_state = False\<rparr> shooter_init)) = Some (Fin 0)
   \<and> feedforward_of Outer (commands (execute
        \<lparr>input_voltage = Fin 12, centre_sensor_velocity = 0, outer_sensor_velocity = 0,
         piston_state = False\<rparr> shooter_init)) = Some (Fin 0)"
proof -
  let ?hw = "\<lparr>input_voltage = Fin 12, centre_sensor_velocity = 0,
              outer_sensor_velocity = 0, piston_state = False\<rparr>"
  have v: "input_voltage ?hw = Fin 12" and nz: "(12 :: real) \<noteq> 0"
    by simp_all
  have z: "centre_target shooter_init = 0" "outer_target shooter_init = 0"
    by (simp_all add: shooter_init_def)
  from execute_zero_target [OF v nz, of shooter_init] z v nz show ?thesis
    by simp
qed

subsection \<open>Speed and readiness\<close>

lemma is_at_speed_nonnegative_targets:
  assumes "0 \<le> centre_target s" and "0 \<le> outer_target s"
  shows "is_at_speed hw s \<longleftrightarrow>
       \<bar>centre_target s - get_centre_velocity hw\<bar> \<le> \<bar>centre_target s\<bar> * velocity_tolerance s
     \<and> \<bar>outer_target s - get_outer_velocity hw\<bar> \<le> \<bar>outer_target s\<bar> * velocity_tolerance s"
  using assms by (simp add: is_at_speed_def)

text \<open>
  C5. \<open>is_at_speed\<close> compares each tracking error with \<open>target * velocity_tolerance\<close>,
  not with \<open>\<bar>target\<bar> * velocity_tolerance\<close>. The two agree for targets that are not
  negative (lemma \<open>is_at_speed_nonnegative_targets\<close>). With a centre target of -100
  and both flywheels measured exactly at their targets (-100 and 5000), every tracking
  error is 0, within 5% of the target's magnitude, and \<open>is_at_speed\<close> is false.
\<close>

theorem is_at_speed_negative_target:
  "get_centre_velocity \<lparr>input_voltage = Fin 12, centre_sensor_velocity = - 20480,
       outer_sensor_velocity = 1024000, piston_state = False\<rparr> = - 100
   \<and> get_outer_velocity \<lparr>input_voltage = Fin 12, centre_sensor_velocity = - 20480,
       outer_sensor_velocity = 1024000, piston_state = False\<rparr> = 5000
   \<and> \<not> is_at_speed
       \<lparr>input_voltage = Fin 12, centre_sensor_velocity = - 20480,
        outer_sensor_velocity = 1024000, piston_state = False\<rparr>
       (shooter_init\<lparr>outer_target := 5000, centre_target := - 100\<rparr>)"
  by (simp add: is_at_speed_def get_centre_velocity_def get_outer_velocity_def
        CTRE_UNITS_TO_RPS_def RPS_TO_CTRE_UNITS_def COUNTS_PER_REV_def shooter_init_def)

lemma is_ready_composition:
  "is_ready hw s = (in_range s \<and> is_at_speed hw s \<and> \<not> piston_state hw)"
  by (simp add: is_ready_def is_in_range_def is_firing_def)

lemma is_ready_nonnegative_targets:
  assumes "0 \<le> centre_target s" and "0 \<le> outer_target s"
  shows "is_ready hw s \<longleftrightarrow>
       in_range s
     \<and> \<bar>centre_target s - get_centre_velocity hw\<bar> \<le> \<bar>centre_target s\<bar> * velocity_tolerance s
     \<and> \<bar>outer_target s - get_outer_velocity hw\<bar> \<le> \<bar>outer_target s\<bar> * velocity_tolerance s
     \<and> \<not> piston_state hw"
  using assms by (simp add: is_ready_composition is_at_speed_def)

lemma is_ready_only_if:
  assumes "0 \<le> velocity_tolerance s" and "is_ready hw s"
  shows "in_range s
     \<and> \<bar>centre_target s - get_centre_velocity hw\<bar> \<le> \<bar>centre_target s\<bar> * velocity_tolerance s
     \<and> \<bar>outer_target s - get_outer_velocity hw\<bar> \<le> \<bar>outer_target s\<bar> * velocity_tolerance s
     \<and> \<not> piston_state hw"
proof -
  have le: "t * velocity_tolerance s \<le> \<bar>t\<bar> * velocity_tolerance s" for t :: real
    using assms(1) by (simp add: mult_right_mono)
  from assms(2) have r: "in_range s" "\<not> piston_state hw"
    and c: "\<bar>centre_target s - get_centre_velocity hw\<bar> \<le> centre_target s * velocity_tolerance s"
    and out: "\<bar>outer_target s - get_outer_velocity hw\<bar> \<le> outer_target s * velocity_tolerance s"
    by (simp_all add: is_ready_composition is_at_speed_def)
  from c le [of "centre_target s"]
  have "\<bar>centre_target s - get_centre_velocity hw\<bar> \<le> \<bar>centre_target s\<bar> * velocity_tolerance s"
    by linarith
  moreover from out le [of "outer_target s"]
  have "\<bar>outer_target s - get_outer_velocity hw\<bar> \<le> \<bar>outer_target s\<bar> * velocity_tolerance s"
    by linarith
  ultimately show ?thesis
    using r by simp
qed

text \<open>
  C6. \<open>is_ready\<close> is the conjunction of \<open>in_range\<close>, \<open>is_at_speed\<close> and no pulse in
  progress, and \<open>is_at_speed\<close> tests each tracking error against
  \<open>target * velocity_tolerance\<close>, without the absolute value of the target. Whenever
  \<open>is_ready\<close> holds, the distance is in range, both flywheels are within 5% of their
  targets' magnitudes and no pulse is in progress (lemma \<open>is_ready_only_if\<close>), and
  for targets that are not negative the converse holds too (lemma
  \<open>is_ready_nonnegative_targets\<close>). With \<open>in_range\<close> set, a centre target of -100,
  both flywheels measured exactly at their targets (-100 and 5000) and the piston
  idle, all three conditions hold, and \<open>is_ready\<close> is false.
\<close>

theorem is_ready_negative_target:
  "in_range (shooter_init\<lparr>in_range := True, outer_target := 5000, centre_target := - 100\<rparr>)
   \<and> \<bar>centre_target (shooter_init\<lparr>in_range := True, outer_target := 5000,
          centre_target := - 100\<rparr>)
        - get_centre_velocity \<lparr>input_voltage = Fin 12, centre_sensor_velocity = - 20480,
            outer_sensor_velocity = 1024000, piston_state = False\<rparr>\<bar>
       \<le> \<bar>centre_target (shooter_init\<lparr>in_range := True, outer_target := 5000,
            centre_target := - 100\<rparr>)\<bar> * (5 / 100)
   \<and> \<bar>outer_target (shooter_init\<lparr>in_range := True, outer_target := 5000,
          centre_target := - 100\<rparr>)
        - get_outer_velocity \<lparr>input_voltage = Fin 12, centre_sensor_velocity = - 20480,
            outer_sensor_velocity = 1024000, piston_state = False\<rparr>\<bar>
       \<le> \<bar>outer_target (shooter_init\<lparr>in_range := True, outer_target := 5000,
            centre_target := - 100\<rparr>)\<bar> * (5 / 100)
   \<and> \<not> is_firing \<lparr>input_voltage = Fin 12, centre_sensor_velocity = - 20480,
            outer_sensor_velocity = 1024000, piston_state = False\<rparr>
   \<and> \<not> is_ready
         \<lparr>input_voltage = Fin 12, centre_sensor_velocity = - 20480,
          outer_sensor_velocity = 1024000, piston_state = False\<rparr>
         (shooter_init\<lparr>in_range := True, outer_target := 5000, centre_target := - 100\<rparr>)"
  by (simp add: is_ready_def is_in_range_def is_firing_def is_at_speed_def
        get_centre_velocity_def get_outer_velocity_def CTRE_UNITS_TO_RPS_def
        RPS_TO_CTRE_UNITS_def COUNTS_PER_REV_def shooter_init_def)

text \<open>
  C10. When a flywheel's target is exactly zero, \<open>is_at_speed\<close> can hold only if that
  flywheel's measured velocity is exactly zero.
\<close>

theorem is_at_speed_zero_target:
  "(centre_target s = 0 \<and> is_at_speed hw s \<longrightarrow> get_centre_velocity hw = 0)
   \<and> (outer_target s = 0 \<and> is_at_speed hw s \<longrightarrow> get_outer_velocity hw = 0)"
  by (auto simp add: is_at_speed_def)

theorem is_at_speed_zero_target_witness:
  "centre_target shooter_init = 0
   \<and> outer_target shooter_init = 0
   \<and> is_at_speed \<lparr>input_voltage = Fin 12, centre_sensor_velocity = 0,
        outer_sensor_velocity = 0, piston_state = False\<rparr> shooter_init
   \<and> get_centre_velocity \<lparr>input_voltage = Fin 12, centre_sensor_velocity = 0,
        outer_sensor_velocity = 0, piston_state = False\<rparr> = 0
   \<and> get_outer_velocity \<lparr>input_voltage = Fin 12, centre_sensor_velocity = 0,
        outer_sensor_velocity = 0, piston_state = False\<rparr> = 0"
proof -
  let ?hw = "\<lparr>input_voltage = Fin 12, centre_sensor_velocity = 0,
              outer_sensor_velocity = 0, piston_state = False\<rparr>"
  have z: "centre_target shooter_init = 0" "outer_target shooter_init = 0"
    by (simp_all add: shooter_init_def)
  have sp: "is_at_speed ?hw shooter_init"
    by (simp add: is_at_speed_def shooter_init_def get_centre_velocity_def
          get_outer_velocity_def)
  from is_at_speed_zero_target [of shooter_init ?hw] z sp show ?thesis
    by simp
qed

end
